theory Spec2Isabelle
  imports Complex_Main "HOL-Library.Multiset"
begin

section \<open>Strings\<close>

text \<open>
  Python \<open>str\<close> values are modelled as \<open>string\<close>; a \<open>char\<close> stands for an ASCII
  code point, so \<open>length\<close> is Python's \<open>len\<close>. The character classes below are the
  ASCII part of Python's Unicode classes (\<open>\d\<close>, \<open>\w\<close>, \<open>str.isspace\<close>), and
  \<open>lower\<close>/\<open>upper\<close> are \<open>str.lower\<close>/\<open>str.upper\<close> on ASCII text, where they keep the
  length. A character outside ASCII is treated as caseless and in no class.
\<close>

definition is_digit :: "char \<Rightarrow> bool" where
  "is_digit c = (48 \<le> (of_char c :: nat) \<and> (of_char c :: nat) \<le> 57)"

definition is_word :: "char \<Rightarrow> bool" where
  "is_word c = (let n = (of_char c :: nat) in
     (48 \<le> n \<and> n \<le> 57) \<or> (65 \<le> n \<and> n \<le> 90) \<or> n = 95 \<or> (97 \<le> n \<and> n \<le> 122))"

definition is_space :: "char \<Rightarrow> bool" where
  "is_space c = (let n = (of_char c :: nat) in (9 \<le> n \<and> n \<le> 13) \<or> (28 \<le> n \<and> n \<le> 32))"

definition lower_char :: "char \<Rightarrow> char" where
  "lower_char c = (let n = (of_char c :: nat) in
     if 65 \<le> n \<and> n \<le> 90 then char_of (n + 32) else c)"

definition upper_char :: "char \<Rightarrow> char" where
  "upper_char c = (let n = (of_char c :: nat) in
     if 97 \<le> n \<and> n \<le> 122 then char_of (n - 32) else c)"

definition lower :: "string \<Rightarrow> string" where
  "lower s = map lower_char s"

definition upper :: "string \<Rightarrow> string" where
  "upper s = map upper_char s"

text \<open>
  \<open>starts_with sub s\<close> is \<open>s.startswith(sub)\<close>. \<open>find_at sub s i\<close> is \<open>s.find(sub)\<close>
  shifted by \<open>i\<close>: the lowest index at which \<open>sub\<close> occurs, \<open>None\<close> for Python's
  \<open>-1\<close>. \<open>find_str sub s start\<close> is \<open>s.find(sub, start)\<close> and \<open>contains sub s\<close> is
  \<open>sub in s\<close>.
\<close>

fun starts_with :: "string \<Rightarrow> string \<Rightarrow> bool" where
  "starts_with [] s = True"
| "starts_with (a # as) [] = False"
| "starts_with (a # as) (c # cs) = (if a = c then starts_with as cs else False)"

primrec find_at :: "string \<Rightarrow> string \<Rightarrow> nat \<Rightarrow> nat option" where
  "find_at sub [] i = (if sub = [] then Some i else None)"
| "find_at sub (c # cs) i =
     (if starts_with sub (c # cs) then Some i else find_at sub cs (Suc i))"

definition find_str :: "string \<Rightarrow> string \<Rightarrow> nat \<Rightarrow> nat option" where
  "find_str sub s start =
     (if start \<le> length s then find_at sub (drop start s) start else None)"

definition contains :: "string \<Rightarrow> string \<Rightarrow> bool" where
  "contains sub s = (find_str sub s 0 \<noteq> None)"

definition strip :: "string \<Rightarrow> string" where
  "strip s = rev (dropWhile is_space (rev (dropWhile is_space s)))"

text \<open>\<open>str_int\<close> is \<open>str\<close> on an integer, \<open>int_of_str\<close> is \<open>int\<close> on a string of digits.\<close>

fun str_nat :: "nat \<Rightarrow> string" where
  "str_nat n =
     (if n < 10 then [char_of (48 + n)] else str_nat (n div 10) @ [char_of (48 + n mod 10)])"

definition str_int :: "int \<Rightarrow> string" where
  "str_int i = (if i < 0 then CHR ''-'' # str_nat (nat (- i)) else str_nat (nat i))"

definition int_of_str :: "string \<Rightarrow> int" where
  "int_of_str s = foldl (\<lambda>a c. 10 * a + (int (of_char c) - 48)) 0 s"

section \<open>Regular expressions\<close>

text \<open>
  The fragment of Python's \<open>re\<close> syntax that the detector's four patterns use. A
  cursor is a position in the text: the character before it (for \<open>\b\<close>) and the
  text after it. \<open>matches r cur\<close> lists the cursors at which a match of \<open>r\<close> that
  starts at \<open>cur\<close> can end, in the order in which a backtracking matcher tries them
  (left alternative first, more repetitions first). \<open>Rep m n r\<close> is \<open>r{m,n}\<close>, and
  \<open>Plus r\<close> is one match of \<open>r\<close> followed by at most as many more as the text has
  characters left.
\<close>

datatype regex =
    Lit string
  | Digit
  | WordChar
  | Boundary
  | Seq regex regex
  | Alt regex regex
  | Opt regex
  | Rep nat nat regex
  | Plus regex

type_synonym cursor = "char option \<times> string"

fun eat :: "(char \<Rightarrow> bool) \<Rightarrow> cursor \<Rightarrow> cursor list" where
  "eat P (p, []) = []"
| "eat P (p, c # cs) = (if P c then [(Some c, cs)] else [])"

fun eat_lit :: "string \<Rightarrow> cursor \<Rightarrow> cursor list" where
  "eat_lit [] cur = [cur]"
| "eat_lit (a # as) (p, []) = []"
| "eat_lit (a # as) (p, c # cs) = (if a = c then eat_lit as (Some c, cs) else [])"

fun at_boundary :: "cursor \<Rightarrow> bool" where
  "at_boundary (p, rest) =
     ((case p of None \<Rightarrow> False | Some c \<Rightarrow> is_word c) \<noteq>
      (case rest of [] \<Rightarrow> False | c # _ \<Rightarrow> is_word c))"

primrec exactly :: "nat \<Rightarrow> (cursor \<Rightarrow> cursor list) \<Rightarrow> cursor \<Rightarrow> cursor list" where
  "exactly 0 f cur = [cur]"
| "exactly (Suc n) f cur = concat (map (exactly n f) (f cur))"

primrec at_most :: "nat \<Rightarrow> (cursor \<Rightarrow> cursor list) \<Rightarrow> cursor \<Rightarrow> cursor list" where
  "at_most 0 f cur = [cur]"
| "at_most (Suc n) f cur = concat (map (at_most n f) (f cur)) @ [cur]"

primrec matches :: "regex \<Rightarrow> cursor \<Rightarrow> cursor list" where
  "matches (Lit s) cur = eat_lit s cur"
| "matches Digit cur = eat is_digit cur"
| "matches WordChar cur = eat is_word cur"
| "matches Boundary cur = (if at_boundary cur then [cur] else [])"
| "matches (Seq r1 r2) cur = concat (map (matches r2) (matches r1 cur))"
| "matches (Alt r1 r2) cur = matches r1 cur @ matches r2 cur"
| "matches (Opt r) cur = matches r cur @ [cur]"
| "matches (Rep m n r) cur =
     concat (map (at_most (n - m) (matches r)) (exactly m (matches r) cur))"
| "matches (Plus r) cur =
     concat (map (at_most (length (snd cur)) (matches r)) (matches r cur))"

definition cat :: "regex list \<Rightarrow> regex" where
  "cat rs = foldr Seq rs (Lit [])"

text \<open>\<open>re_search r s\<close> is \<open>bool(re.search(r, s))\<close>: a match starts at some position.\<close>

primrec cursors :: "char option \<Rightarrow> string \<Rightarrow> cursor list" where
  "cursors p [] = [(p, [])]"
| "cursors p (c # cs) = (p, c # cs) # cursors (Some c) cs"

definition re_search :: "regex \<Rightarrow> string \<Rightarrow> bool" where
  "re_search r s = list_ex (\<lambda>cur. matches r cur \<noteq> []) (cursors None s)"

text \<open>
  \<open>finditer r p s\<close> lists the matched substrings of \<open>re.finditer(r, s)\<close>: the
  leftmost match, then the scan goes on where it ended (one character further after
  an empty match).
\<close>

function finditer :: "regex \<Rightarrow> char option \<Rightarrow> string \<Rightarrow> string list" where
  "finditer r p [] = (if matches r (p, []) = [] then [] else [[]])"
| "finditer r p (c # cs) =
     (case matches r (p, c # cs) of
        [] \<Rightarrow> finditer r (Some c) cs
      | (p', rest) # _ \<Rightarrow>
          (let n = length (c # cs) - length rest in
           if n = 0 then [] # finditer r (Some c) cs
           else take n (c # cs) # finditer r p' rest))"
  by pat_completeness auto
termination
  by (relation "measure (\<lambda>(r, p, s). length s)") auto

section \<open>Temporal lexicon\<close>

text \<open>
  The four tables of \<open>contamination_check.py\<close>, each a dictionary from a threshold
  year to a set of terms, in the order of the source. Some entries of the source are
  conditional expressions over the literal \<open>"context"\<close>; they are kept as written and
  evaluate to the empty string, or to the term for \<open>"photograph"\<close>.
  A Python set has no order and no duplicates: a list stands for it here, and nothing
  below depends on the order of its elements.
\<close>

type_synonym lexicon = "(int \<times> string list) list"

definition ANACHRONISM_ENTITIES :: lexicon where
  "ANACHRONISM_ENTITIES =
    [(1913,
      [''world war i'', ''world war 1'', ''the great war'', ''wwi'',
       ''world war ii'', ''world war 2'', ''wwii'', ''second world war'',
       ''russian revolution'', ''bolshevik revolution'',
       ''treaty of versailles'', ''league of nations'',
       ''great depression'', ''stock market crash 1929'',
       ''pearl harbor'', ''d-day'', ''hiroshima'', ''nagasaki'',
       ''holocaust'', ''concentration camp'', ''auschwitz'',
       ''cold war'', ''korean war'', ''vietnam war'',
       ''cuban missile crisis'', ''bay of pigs'',
       ''moon landing'', ''apollo 11'']),
     (1900,
      [''wright brothers'', ''kitty hawk'', ''first flight'',
       ''world war'', ''wwi'', ''wwii'',
       ''russian revolution'', ''bolshevik'',
       ''relativity'', ''quantum mechanics'',
       ''radio broadcast'', ''television'']),
     (1850,
      [(if contains ''american'' ''context'' then ''civil war'' else []),
       ''darwin'' @ [CHR 0x27] @ ''s origin of species'',
       ''telephone'', ''electric light'', ''light bulb'',
       ''automobile'', ''motor car'', ''internal combustion'',
       ''airplane'', ''aeroplane'',
       ''world war'', ''wwi'', ''wwii''])]"

definition ANACHRONISM_PEOPLE :: lexicon where
  "ANACHRONISM_PEOPLE =
    [(1913,
      [''adolf hitler'', ''hitler'',
       ''benito mussolini'', ''mussolini'',
       ''joseph stalin'', ''stalin'',
       ''franklin roosevelt'', ''fdr'',
       (if contains ''prime minister'' ''context'' then ''winston churchill'' else []),
       (if contains ''relativity'' ''context'' then ''albert einstein'' else []),
       ''mao zedong'', ''mao tse-tung'',
       ''fidel castro'',
       ''john f kennedy'', ''jfk'',
       ''martin luther king'',
       ''nelson mandela'']),
     (1900,
      [''wright brothers'',
       ''albert einstein'',
       (if contains ''radioactivity'' ''context'' then ''marie curie'' else [])])]"

definition ANACHRONISM_TECHNOLOGY :: lexicon where
  "ANACHRONISM_TECHNOLOGY =
    [(1913,
      [''television'', ''tv set'',
       ''radio broadcast'', ''wireless radio'',
       ''computer'', ''computing machine'',
       ''atomic bomb'', ''nuclear weapon'', ''hydrogen bomb'',
       ''jet engine'', ''jet aircraft'',
       ''helicopter'',
       ''penicillin'', ''antibiotic'',
       ''plastic'',
       ''nylon'']),
     (1900,
      [''airplane'', ''aeroplane'', ''aircraft'',
       ''radio'', ''wireless telegraphy'',
       ''automobile'', ''motor car'',
       ''moving picture'', ''cinema'']),
     (1850,
      [''telephone'',
       ''phonograph'', ''gramophone'',
       ''electric light'', ''incandescent'',
       ''typewriter'',
       (if \<not> contains ''daguerreotype'' ''context'' then ''photograph'' else [])])]"

definition ANACHRONISM_CONCEPTS :: lexicon where
  "ANACHRONISM_CONCEPTS =
    [(1913,
      [''nazi'', ''nazism'', ''fascism'', ''fascist'',
       ''soviet union'', ''ussr'', ''soviet'',
       ''communist party'',
       ''united nations'',
       (if contains ''declaration'' ''context'' then ''human rights'' else []),
       ''genocide'',
       ''existentialism'',
       (if contains ''widespread'' ''context'' then ''psychoanalysis'' else [])]),
     (1900,
      [''radioactivity'', ''radiation'',
       ''x-ray'',
       ''electron'',
       ''relativity'',
       ''quantum''])]"

text \<open>
  \<open>category_terms\<close> is the body of the loop over the categories: the non-empty terms,
  lower-cased, of the entries whose year is at least the cutoff.
\<close>

definition category_terms :: "int \<Rightarrow> lexicon \<Rightarrow> string list" where
  "category_terms cutoff_year category =
     concat (map (\<lambda>(year, year_terms).
        if year \<ge> cutoff_year then map lower (filter (\<lambda>t. t \<noteq> []) year_terms) else [])
      category)"

definition get_all_anachronisms :: "int \<Rightarrow> string list" where
  "get_all_anachronisms cutoff_year =
     remdups (concat (map (category_terms cutoff_year)
       [ANACHRONISM_ENTITIES, ANACHRONISM_PEOPLE,
        ANACHRONISM_TECHNOLOGY, ANACHRONISM_CONCEPTS]))"

section \<open>Contamination detector\<close>

text \<open>The four patterns of \<open>check_for_modern_references\<close>.\<close>

definition year_pattern :: regex where
  "year_pattern =
     cat [Boundary,
          Alt (cat [Lit ''19'', Rep 2 2 Digit]) (cat [Lit ''20'', Rep 2 2 Digit]),
          Boundary]"

definition modern_date_pattern :: regex where
  "modern_date_pattern =
     cat [Boundary, Rep 1 2 Digit, Lit ''/'', Rep 1 2 Digit, Lit ''/'',
          Alt (Lit ''19'') (Lit ''20''), Rep 2 2 Digit, Boundary]"

definition url_pattern :: regex where
  "url_pattern =
     Alt (cat [Lit ''http'', Opt (Lit ''s''), Lit ''://''])
    (Alt (Lit ''www.'')
    (Alt (Lit ''.com'')
    (Alt (Lit ''.org'')
         (cat [Lit ''@'', Plus WordChar, Lit ''.'', Plus WordChar]))))"

definition currency_pattern :: regex where
  "currency_pattern =
     cat [Lit ''$'', Rep 1 3 Digit, Plus (cat [Lit '','', Rep 3 3 Digit])]"

text \<open>
  The loop over the year matches appends one entry for every match whose year is
  after the cutoff; each of the three searches appends at most one entry.
\<close>

definition year_references :: "string \<Rightarrow> int \<Rightarrow> string list" where
  "year_references text cutoff_year =
     concat (map (\<lambda>m. let year = int_of_str m in
                        if year > cutoff_year then [''Year reference: '' @ str_int year] else [])
       (finditer year_pattern None text))"

definition check_for_modern_references :: "string \<Rightarrow> int \<Rightarrow> string list" where
  "check_for_modern_references text cutoff_year =
     (let text_lower = lower text;
          found = year_references text cutoff_year;
          found = (if re_search modern_date_pattern text
                   then found @ [''Modern date format''] else found);
          found = (if re_search url_pattern text_lower
                   then found @ [''URL or email address''] else found);
          found = (if re_search currency_pattern text
                   then found @ [''Modern currency format''] else found)
      in found)"

text \<open>
  The verdict. Python's floats are modelled as exact reals: the increments are the
  decimal constants of the source, and \<open>min 1\<close> is the cap. The comparisons that the
  examples below decide (0, 0.2, 0.3 and 0.6 against the threshold 0.3) come out the
  same in double precision.
\<close>

record ContaminationResult =
  is_contaminated :: bool
  confidence :: real
  reasons :: "string list"
  matched_terms :: "string list"

text \<open>
  The state of the scan is \<open>(reasons, matched_terms, confidence)\<close>. The context slice
  that the loop over the terms takes around the first occurrence is never read, so
  \<open>context_window\<close> has no effect.
\<close>

type_synonym scan = "string list \<times> string list \<times> real"

definition term_reason :: "string \<Rightarrow> string" where
  "term_reason term = ''Anachronistic term '' @ [CHR 0x27] @ term @ [CHR 0x27] @ '' found''"

definition marker_reason :: "string \<Rightarrow> string" where
  "marker_reason marker = ''Possible modern annotation: '' @ [CHR 0x27] @ marker @ [CHR 0x27]"

definition term_step :: "string \<Rightarrow> scan \<Rightarrow> string \<Rightarrow> scan" where
  "term_step text_lower st term =
     (case st of (rs, ms, conf) \<Rightarrow>
        if contains term text_lower
        then (rs @ [term_reason term], ms @ [term], min 1 (conf + 2 / 10))
        else (rs, ms, conf))"

definition ref_step :: "scan \<Rightarrow> string \<Rightarrow> scan" where
  "ref_step st ref = (case st of (rs, ms, conf) \<Rightarrow> (rs @ [ref], ms, min 1 (conf + 3 / 10)))"

definition intro_markers :: "string list" where
  "intro_markers =
     [''introduction by'', ''edited by'', ''annotated by'', ''foreword by'', ''notes by'']"

definition marker_step :: "string \<Rightarrow> scan \<Rightarrow> string \<Rightarrow> scan" where
  "marker_step text_lower st marker =
     (case st of (rs, ms, conf) \<Rightarrow>
        if contains marker (take 5000 text_lower)
        then (rs @ [marker_reason marker], ms, min 1 (conf + 1 / 10))
        else (rs, ms, conf))"

definition check_contamination :: "string \<Rightarrow> int \<Rightarrow> int \<Rightarrow> real \<Rightarrow> ContaminationResult" where
  "check_contamination text cutoff_year context_window threshold =
     (let text_lower = lower text;
          anachronisms = get_all_anachronisms cutoff_year;
          st = foldl (term_step text_lower) ([], [], 0) anachronisms;
          modern_refs = check_for_modern_references text cutoff_year;
          st = foldl ref_step st modern_refs;
          st = (if contains ''project gutenberg'' (take 2000 text_lower)
                then foldl (marker_step text_lower) st intro_markers else st)
      in case st of (rs, ms, conf) \<Rightarrow>
           \<lparr>is_contaminated = (conf \<ge> threshold), confidence = conf,
            reasons = rs, matched_terms = ms\<rparr>)"


section \<open>Header and footer normalizer\<close>

definition header_end_markers :: "string list" where
  "header_end_markers =
     [''*** START OF THIS PROJECT GUTENBERG'',
      ''*** START OF THE PROJECT GUTENBERG'',
      ''*END*THE SMALL PRINT'',
      ''END OF THE PROJECT GUTENBERG HEADER'']"

definition footer_start_markers :: "string list" where
  "footer_start_markers =
     [''*** END OF THIS PROJECT GUTENBERG'',
      ''*** END OF THE PROJECT GUTENBERG'',
      ''End of Project Gutenberg'',
      ''End of the Project Gutenberg'']"

text \<open>
  Both loops of \<open>clean_gutenberg_headers\<close> stop at the first marker, in the order of
  the list, that occurs in the upper-cased text: \<open>first_found\<close> is its index.
\<close>

primrec first_found :: "string list \<Rightarrow> string \<Rightarrow> nat option" where
  "first_found [] text = None"
| "first_found (marker # ms) text =
     (case find_str (upper marker) (upper text) 0 of
        Some idx \<Rightarrow> Some idx
      | None \<Rightarrow> first_found ms text)"

definition remove_header :: "string \<Rightarrow> string" where
  "remove_header text =
     (case first_found header_end_markers text of
        None \<Rightarrow> text
      | Some idx \<Rightarrow>
          (case find_str [CHR 0x0A] text idx of
             None \<Rightarrow> text
           | Some end_idx \<Rightarrow> drop (end_idx + 1) text))"

definition remove_footer :: "string \<Rightarrow> string" where
  "remove_footer text =
     (case first_found footer_start_markers text of
        None \<Rightarrow> text
      | Some idx \<Rightarrow> take idx text)"

definition clean_gutenberg_headers :: "string \<Rightarrow> string" where
  "clean_gutenberg_headers text = strip (remove_footer (remove_header text))"


section \<open>Reading the input files\<close>

text \<open>
  A line of a JSONL file, after \<open>line.strip()\<close> and \<open>json.loads\<close>: blank, not JSON,
  or an object, of which the reader looks at the keys \<open>text\<close> and \<open>source\<close> (both
  strings when present, by the record schema). An input file is \<open>None\<close> when its
  path does not exist.
\<close>

datatype jsonl_line =
    BlankLine
  | BadJson
  | Rec "string option" "string option"

type_synonym jsonl_file = "jsonl_line list option"

text \<open>What the body of the loop over the lines does with one line.\<close>

datatype outcome = Skipped | Rejected | Yielded string

definition line_outcome :: "int \<Rightarrow> bool \<Rightarrow> bool \<Rightarrow> jsonl_line \<Rightarrow> outcome" where
  "line_outcome cutoff_year clean_headers check_contam line =
     (case line of
        BlankLine \<Rightarrow> Skipped
      | BadJson \<Rightarrow> Skipped
      | Rec t source \<Rightarrow>
          (let text = (case t of None \<Rightarrow> [] | Some x \<Rightarrow> x) in
           if text = [] \<or> length text < 100 then Skipped
           else
             let text = (if clean_headers \<and> source = Some ''gutenberg''
                         then clean_gutenberg_headers text else text) in
             if check_contam \<and> is_contaminated (check_contamination text cutoff_year 100 (3 / 10))
             then Rejected
             else Yielded text))"

definition file_lines :: "jsonl_file list \<Rightarrow> jsonl_line list" where
  "file_lines input_files =
     concat (map (\<lambda>f. case f of None \<Rightarrow> [] | Some lines \<Rightarrow> lines) input_files)"

definition outcomes :: "jsonl_file list \<Rightarrow> int \<Rightarrow> bool \<Rightarrow> bool \<Rightarrow> outcome list" where
  "outcomes input_files cutoff_year clean_headers check_contam =
     map (line_outcome cutoff_year clean_headers check_contam) (file_lines input_files)"

definition iter_jsonl_texts :: "jsonl_file list \<Rightarrow> int \<Rightarrow> bool \<Rightarrow> bool \<Rightarrow> string list" where
  "iter_jsonl_texts input_files cutoff_year clean_headers check_contam =
     concat (map (\<lambda>out. case out of Yielded text \<Rightarrow> [text] | _ \<Rightarrow> [])
       (outcomes input_files cutoff_year clean_headers check_contam))"

text \<open>The documents that the reader drops because the detector flags them.\<close>

definition rejected_documents :: "jsonl_file list \<Rightarrow> int \<Rightarrow> nat" where
  "rejected_documents input_files cutoff_year =
     length (filter (\<lambda>out. out = Rejected) (outcomes input_files cutoff_year True True))"

section \<open>Shard packager\<close>

record run_stats =
  total_docs :: nat
  total_chars :: nat
  num_shards :: nat
  rejected_contamination :: nat

text \<open>
  A written shard file: the index in its name, its rows, and the character count the
  packager printed for it. Writing a file is modelled as recording it; a failure of
  the parquet writer is outside the model.
\<close>

record shard_file =
  sh_index :: nat
  sh_docs :: "string list"
  sh_chars :: nat

record pack_state =
  shard_docs :: "string list"
  shard_chars :: nat
  shard_index :: nat
  stats :: run_stats
  written :: "shard_file list"

datatype py_error = ZeroDivisionError

text \<open>
  \<open>random\<close> is library code. \<open>random.seed(a)\<close> puts the generator in a state that
  depends on \<open>a\<close> only, and \<open>random.shuffle\<close> swaps positions that the generator
  picks, so the shuffled list is the input read in an order that depends on the
  generator state and on the length of the list only. Both are parameters here.
\<close>

record 'g random_module =
  seed_state :: "int \<Rightarrow> 'g"
  shuffle_order :: "'g \<Rightarrow> nat \<Rightarrow> nat list"

definition valid_random :: "'g random_module \<Rightarrow> bool" where
  "valid_random rnd = (\<forall>g n. mset (shuffle_order rnd g n) = mset [0..<n])"

definition shuffle :: "'g random_module \<Rightarrow> 'g \<Rightarrow> 'a list \<Rightarrow> 'a list" where
  "shuffle rnd g xs = map (\<lambda>i. xs ! i) (shuffle_order rnd g (length xs))"

text \<open>\<open>max_shards and shard_index >= max_shards\<close>: an integer is true when it is not 0.\<close>

definition cap_reached :: "int option \<Rightarrow> nat \<Rightarrow> bool" where
  "cap_reached max_shards idx =
     (case max_shards of None \<Rightarrow> False | Some m \<Rightarrow> m \<noteq> 0 \<and> int idx \<ge> m)"

definition add_doc :: "string \<Rightarrow> pack_state \<Rightarrow> pack_state" where
  "add_doc text st =
     st\<lparr>shard_docs := shard_docs st @ [text],
        shard_chars := shard_chars st + length text,
        stats := (stats st)\<lparr>total_docs := total_docs (stats st) + 1,
                             total_chars := total_chars (stats st) + length text\<rparr>\<rparr>"

definition seal :: "pack_state \<Rightarrow> pack_state" where
  "seal st =
     st\<lparr>written := written st @
          [\<lparr>sh_index = shard_index st, sh_docs = shard_docs st, sh_chars = shard_chars st\<rparr>],
        stats := (stats st)\<lparr>num_shards := num_shards (stats st) + 1\<rparr>,
        shard_docs := [],
        shard_chars := 0,
        shard_index := shard_index st + 1\<rparr>"

text \<open>
  The accumulation loop. \<open>break\<close> returns the state as it is; \<open>%\<close> by zero raises.
\<close>

fun pack_loop :: "int \<Rightarrow> int \<Rightarrow> int option \<Rightarrow> string list \<Rightarrow> pack_state \<Rightarrow> py_error + pack_state" where
  "pack_loop chars_per_shard row_group_size max_shards [] st = Inr st"
| "pack_loop chars_per_shard row_group_size max_shards (text # rest) st =
     (if cap_reached max_shards (shard_index st) then Inr st
      else
        let st = add_doc text st;
            collected_enough = (int (shard_chars st) \<ge> chars_per_shard)
        in if row_group_size = 0 then Inl ZeroDivisionError
           else
             let docs_aligned = (int (length (shard_docs st)) mod row_group_size = 0)
             in if collected_enough \<and> docs_aligned
                then pack_loop chars_per_shard row_group_size max_shards rest (seal st)
                else pack_loop chars_per_shard row_group_size max_shards rest st)"

text \<open>
  The result of a run: the returned statistics, the statistics file (not written when
  no document was collected), the shards sealed in the loop and the final flush.
\<close>

record run_result =
  returned :: run_stats
  stats_file :: "run_stats option"
  sealed :: "shard_file list"
  flushed :: "shard_file option"

definition shards_written :: "run_result \<Rightarrow> shard_file list" where
  "shards_written r = sealed r @ (case flushed r of None \<Rightarrow> [] | Some sh \<Rightarrow> [sh])"

text \<open>
  The shard size invariant in the words of the specification: a shard has at least
  \<open>chars_per_shard\<close> characters, counted over its documents, and a number of
  documents that is a multiple of \<open>row_group_size\<close>.
\<close>

definition sealed_ok :: "int \<Rightarrow> int \<Rightarrow> shard_file \<Rightarrow> bool" where
  "sealed_ok chars_per_shard row_group_size sh =
     (chars_per_shard \<le> int (sh_chars sh) \<and>
      sh_chars sh = sum_list (map length (sh_docs sh)) \<and>
      int (length (sh_docs sh)) mod row_group_size = 0)"

definition initial_stats :: run_stats where
  "initial_stats =
     \<lparr>total_docs = 0, total_chars = 0, num_shards = 0, rejected_contamination = 0\<rparr>"

definition flush :: "int option \<Rightarrow> pack_state \<Rightarrow> run_result" where
  "flush max_shards st =
     (if shard_docs st \<noteq> [] \<and>
         (case max_shards of None \<Rightarrow> True | Some m \<Rightarrow> int (shard_index st) < m)
      then
        let st' = (stats st)\<lparr>num_shards := num_shards (stats st) + 1\<rparr>
        in \<lparr>returned = st', stats_file = Some st', sealed = written st,
            flushed = Some \<lparr>sh_index = shard_index st, sh_docs = shard_docs st,
                           sh_chars = shard_chars st\<rparr>\<rparr>
      else \<lparr>returned = stats st, stats_file = Some (stats st), sealed = written st,
            flushed = None\<rparr>)"

text \<open>
  \<open>package_shards\<close>; \<open>g\<close> is the state of the generator when the run starts. The
  output directory only names where the files go and is left out.
\<close>

definition package_shards ::
  "'g random_module \<Rightarrow> 'g \<Rightarrow> jsonl_file list \<Rightarrow> int \<Rightarrow> int \<Rightarrow> int \<Rightarrow> int \<Rightarrow> int option
     \<Rightarrow> py_error + run_result" where
  "package_shards rnd g input_files cutoff_year chars_per_shard row_group_size
       shuffle_seed max_shards =
     (let all_texts = iter_jsonl_texts input_files cutoff_year True True in
      if all_texts = []
      then Inr \<lparr>returned = initial_stats, stats_file = None, sealed = [], flushed = None\<rparr>
      else
        let g = seed_state rnd shuffle_seed;
            all_texts = shuffle rnd g all_texts
        in case pack_loop chars_per_shard row_group_size max_shards all_texts
                  \<lparr>shard_docs = [], shard_chars = 0, shard_index = 0,
                   stats = initial_stats, written = []\<rparr> of
             Inl e \<Rightarrow> Inl e
           | Inr st \<Rightarrow> Inr (flush max_shards st))"

section \<open>Example inputs\<close>

text \<open>Three documents of at least 100 characters, for the examples below.\<close>

definition doc_king :: string where
  "doc_king = ''The king rode his horse to the castle in 1812. The queen waited by the gate with her court and hounds.''"

definition doc_telegraph :: string where
  "doc_telegraph = ''The telegraph was a remarkable invention. Messages crossed the country in minutes rather than in weeks.''"

definition doc_website :: string where
  "doc_website = ''Visit our website at www.example.com for more info. The catalogue lists every volume of the collection.''"



text \<open>Input files built from these documents.\<close>

definition mixed_file :: jsonl_file where
  "mixed_file =
     Some [BlankLine, BadJson, Rec None (Some ''caselaw''), Rec (Some []) None,
           Rec (Some ''Too short to keep.'') None, Rec (Some doc_king) None]"

definition three_docs :: "jsonl_file list" where
  "three_docs =
     [Some [Rec (Some doc_king) None, Rec (Some doc_telegraph) None],
      Some [Rec (Some doc_king) None]]"

definition one_doc :: "jsonl_file list" where
  "one_doc = [Some [Rec (Some doc_king) None]]"

definition clean_and_flagged :: "jsonl_file list" where
  "clean_and_flagged = [Some [Rec (Some doc_king) None, Rec (Some doc_website) None]]"



text \<open>A generator for the examples: its shuffle leaves the order as it is.\<close>

definition plain_random :: "unit random_module" where
  "plain_random = \<lparr>seed_state = (\<lambda>a. ()), shuffle_order = (\<lambda>g n. [0..<n])\<rparr>"

section \<open>Properties of the lexicon\<close>

lemma category_terms_antitone:
  "c1 \<le> c2 \<Longrightarrow> set (category_terms c2 category) \<subseteq> set (category_terms c1 category)"
  by (induction category) (auto simp: category_terms_def)



text \<open>
  Claim C7. For cutoff years \<open>C1 < C2\<close> the terms of \<open>get_all_anachronisms C1\<close> are a
  superset of the terms of \<open>get_all_anachronisms C2\<close>: an earlier cutoff is stricter.
\<close>

theorem get_all_anachronisms_antitone:
  "C1 < C2 \<Longrightarrow> set (get_all_anachronisms C2) \<subseteq> set (get_all_anachronisms C1)"
proof -
  assume "C1 < C2"
  then have "\<And>category. set (category_terms C2 category) \<subseteq> set (category_terms C1 category)"
    by (simp add: category_terms_antitone)
  then show ?thesis
    unfolding get_all_anachronisms_def by auto
qed

theorem get_all_anachronisms_antitone_witness:
  "(1900 :: int) < 1913 \<and> set (get_all_anachronisms 1913) \<subseteq> set (get_all_anachronisms 1900)"
  using get_all_anachronisms_antitone [of 1900 1913] by simp

section \<open>Properties of the detector\<close>




















text \<open>The terms of the two latest cutoffs, and the verdicts on the example documents.\<close>

lemma anachronisms_1913:
  "get_all_anachronisms 1913 =
    [''world war i'', ''world war 1'', ''the great war'', ''wwi'', ''world war ii'',
     ''world war 2'', ''wwii'', ''second world war'', ''russian revolution'',
     ''bolshevik revolution'', ''treaty of versailles'', ''league of nations'',
     ''great depression'', ''stock market crash 1929'', ''pearl harbor'', ''d-day'',
     ''hiroshima'', ''nagasaki'', ''holocaust'', ''concentration camp'', ''auschwitz'',
     ''cold war'', ''korean war'', ''vietnam war'', ''cuban missile crisis'',
     ''bay of pigs'', ''moon landing'', ''apollo 11'', ''adolf hitler'', ''hitler'',
     ''benito mussolini'', ''mussolini'', ''joseph stalin'', ''stalin'',
     ''franklin roosevelt'', ''fdr'', ''mao zedong'', ''mao tse-tung'',
     ''fidel castro'', ''john f kennedy'', ''jfk'', ''martin luther king'',
     ''nelson mandela'', ''television'', ''tv set'', ''radio broadcast'',
     ''wireless radio'', ''computer'', ''computing machine'', ''atomic bomb'',
     ''nuclear weapon'', ''hydrogen bomb'', ''jet engine'', ''jet aircraft'',
     ''helicopter'', ''penicillin'', ''antibiotic'', ''plastic'', ''nylon'', ''nazi'',
     ''nazism'', ''fascism'', ''fascist'', ''soviet union'', ''ussr'', ''soviet'',
     ''communist party'', ''united nations'', ''genocide'', ''existentialism'']"
  by code_simp

lemma anachronisms_1900:
  "get_all_anachronisms 1900 =
    [''world war i'', ''world war 1'', ''the great war'', ''world war ii'',
     ''world war 2'', ''second world war'', ''bolshevik revolution'',
     ''treaty of versailles'', ''league of nations'', ''great depression'',
     ''stock market crash 1929'', ''pearl harbor'', ''d-day'', ''hiroshima'',
     ''nagasaki'', ''holocaust'', ''concentration camp'', ''auschwitz'', ''cold war'',
     ''korean war'', ''vietnam war'', ''cuban missile crisis'', ''bay of pigs'',
     ''moon landing'', ''apollo 11'', ''kitty hawk'', ''first flight'', ''world war'',
     ''wwi'', ''wwii'', ''russian revolution'', ''bolshevik'', ''quantum mechanics'',
     ''adolf hitler'', ''hitler'', ''benito mussolini'', ''mussolini'',
     ''joseph stalin'', ''stalin'', ''franklin roosevelt'', ''fdr'', ''mao zedong'',
     ''mao tse-tung'', ''fidel castro'', ''john f kennedy'', ''jfk'',
     ''martin luther king'', ''nelson mandela'', ''wright brothers'',
     ''albert einstein'', ''television'', ''tv set'', ''radio broadcast'',
     ''wireless radio'', ''computer'', ''computing machine'', ''atomic bomb'',
     ''nuclear weapon'', ''hydrogen bomb'', ''jet engine'', ''jet aircraft'',
     ''helicopter'', ''penicillin'', ''antibiotic'', ''plastic'', ''nylon'',
     ''airplane'', ''aeroplane'', ''aircraft'', ''radio'', ''wireless telegraphy'',
     ''automobile'', ''motor car'', ''moving picture'', ''cinema'', ''nazi'',
     ''nazism'', ''fascism'', ''fascist'', ''soviet union'', ''ussr'', ''soviet'',
     ''communist party'', ''united nations'', ''genocide'', ''existentialism'',
     ''radioactivity'', ''radiation'', ''x-ray'', ''electron'', ''relativity'',
     ''quantum'']"
  by code_simp

lemma doc_king_clean:
  "check_contamination doc_king 1913 100 (3 / 10) =
     \<lparr>is_contaminated = False, confidence = 0, reasons = [], matched_terms = []\<rparr>"
  unfolding check_contamination_def anachronisms_1913 by code_simp

lemma doc_telegraph_clean:
  "check_contamination doc_telegraph 1913 100 (3 / 10) =
     \<lparr>is_contaminated = False, confidence = 0, reasons = [], matched_terms = []\<rparr>"
  unfolding check_contamination_def anachronisms_1913 by code_simp

lemma doc_website_contaminated:
  "check_contamination doc_website 1913 100 (3 / 10) =
     \<lparr>is_contaminated = True, confidence = 3 / 10, reasons = [''URL or email address''],
      matched_terms = []\<rparr>"
  unfolding check_contamination_def anachronisms_1913 by code_simp

text \<open>
  Claim C1. With the default threshold 0.3 the text of scenario C is not flagged at
  the cutoff 1913, and it is not flagged at the cutoff 1900 either: \<open>airplane\<close> is the
  only term that matches, and one term gives the confidence 0.2, which is below the
  threshold.
\<close>

theorem airplane_scenario:
  "check_contamination ''The airplane flew over the city.'' 1900 100 (3 / 10) =
     \<lparr>is_contaminated = False, confidence = 2 / 10,
      reasons = [term_reason ''airplane''], matched_terms = [''airplane'']\<rparr>
   \<and> check_contamination ''The airplane flew over the city.'' 1913 100 (3 / 10) =
     \<lparr>is_contaminated = False, confidence = 0, reasons = [], matched_terms = []\<rparr>"
  unfolding check_contamination_def anachronisms_1913 anachronisms_1900 by code_simp



section \<open>Properties of the normalizer\<close>




lemma length_strip: "length (strip s) \<le> length s"
proof -
  have "length (strip s) \<le> length (dropWhile is_space s)"
    unfolding strip_def using length_dropWhile_le [of is_space "rev (dropWhile is_space s)"]
    by simp
  also have "\<dots> \<le> length s" by (rule length_dropWhile_le)
  finally show ?thesis .
qed






lemma length_remove_header: "length (remove_header text) \<le> length text"
  by (simp add: remove_header_def split: option.splits)

lemma length_remove_footer: "length (remove_footer text) \<le> length text"
  by (simp add: remove_footer_def split: option.splits)

lemma length_clean: "length (clean_gutenberg_headers text) \<le> length text"
  unfolding clean_gutenberg_headers_def
  using length_strip [of "remove_footer (remove_header text)"]
    length_remove_footer [of "remove_header text"] length_remove_header [of "text"]
  by linarith







section \<open>Properties of the reader\<close>

lemma doc_lengths:
  "length doc_king = 102" "length doc_telegraph = 103" "length doc_website = 103"
  by (simp_all add: doc_king_def doc_telegraph_def doc_website_def)

lemma outcome_king:
  "line_outcome 1913 True True (Rec (Some doc_king) None) = Yielded doc_king"
  using doc_lengths by (auto simp: line_outcome_def doc_king_clean)

lemma outcome_telegraph:
  "line_outcome 1913 True True (Rec (Some doc_telegraph) None) = Yielded doc_telegraph"
  using doc_lengths by (auto simp: line_outcome_def doc_telegraph_clean)

lemma outcome_website:
  "line_outcome 1913 True True (Rec (Some doc_website) None) = Rejected"
  using doc_lengths by (auto simp: line_outcome_def doc_website_contaminated)

lemma outcome_skipped:
  "line_outcome c cl ch BlankLine = Skipped"
  "line_outcome c cl ch BadJson = Skipped"
  "line_outcome c cl ch (Rec None source) = Skipped"
  "length t < 100 \<Longrightarrow> line_outcome c cl ch (Rec (Some t) source) = Skipped"
  by (simp_all add: line_outcome_def)

lemma outcome_yielded:
  "line_outcome c cl ch line = Yielded y \<Longrightarrow>
     \<exists>t source. line = Rec (Some t) source \<and> 100 \<le> length t \<and>
       y = (if cl \<and> source = Some ''gutenberg'' then clean_gutenberg_headers t else t)"
  by (cases line) (auto simp: line_outcome_def Let_def split: option.splits if_splits)

text \<open>
  Claim C10. Every text that \<open>iter_jsonl_texts\<close> yields comes from a record of an
  input file whose raw \<open>text\<close> field is present and has at least 100 characters (the
  yielded text is that field, or its cleaned form for a Gutenberg record); a record
  whose \<open>text\<close> field is missing, empty or shorter than 100 characters is skipped
  before the cleaning and before the contamination check.
\<close>

theorem iter_jsonl_texts_min_length:
  "(\<forall>y \<in> set (iter_jsonl_texts input_files cutoff_year clean_headers check_contam).
      \<exists>lines t source. Some lines \<in> set input_files \<and> Rec (Some t) source \<in> set lines \<and>
        100 \<le> length t \<and>
        y = (if clean_headers \<and> source = Some ''gutenberg''
             then clean_gutenberg_headers t else t))
   \<and> (\<forall>source. line_outcome cutoff_year clean_headers check_contam (Rec None source) = Skipped)
   \<and> (\<forall>t source. length t < 100 \<longrightarrow>
         line_outcome cutoff_year clean_headers check_contam (Rec (Some t) source) = Skipped)"
proof (intro conjI ballI allI impI)
  fix y
  assume "y \<in> set (iter_jsonl_texts input_files cutoff_year clean_headers check_contam)"
  then obtain line where l: "line \<in> set (file_lines input_files)"
    and o: "line_outcome cutoff_year clean_headers check_contam line = Yielded y"
    by (auto simp: iter_jsonl_texts_def outcomes_def split: outcome.splits)
  from l obtain lines where "Some lines \<in> set input_files" "line \<in> set lines"
    by (auto simp: file_lines_def split: option.splits)
  with outcome_yielded [OF o]
  show "\<exists>lines t source. Some lines \<in> set input_files \<and> Rec (Some t) source \<in> set lines \<and>
        100 \<le> length t \<and>
        y = (if clean_headers \<and> source = Some ''gutenberg''
             then clean_gutenberg_headers t else t)"
    by blast
qed (simp_all add: outcome_skipped)

lemma iter_mixed_file: "iter_jsonl_texts [None, mixed_file] 1913 True True = [doc_king]"
  by (simp add: iter_jsonl_texts_def outcomes_def file_lines_def mixed_file_def
      outcome_skipped outcome_king)

theorem iter_jsonl_texts_min_length_witness:
  "iter_jsonl_texts [None, mixed_file] 1913 True True = [doc_king] \<and> 100 \<le> length doc_king
   \<and> line_outcome 1913 True True (Rec (Some ''Too short to keep.'') None) = Skipped"
proof -
  from iter_jsonl_texts_min_length [of "[None, mixed_file]" 1913 True True]
  have "\<exists>lines t source. Some lines \<in> set [None, mixed_file] \<and> Rec (Some t) source \<in> set lines \<and>
          100 \<le> length t \<and>
          doc_king = (if True \<and> source = Some ''gutenberg'' then clean_gutenberg_headers t else t)"
    and s: "line_outcome 1913 True True (Rec (Some ''Too short to keep.'') None) = Skipped"
    by (simp_all add: iter_mixed_file)
  then have "100 \<le> length doc_king"
    by (auto simp: mixed_file_def)
  with s show ?thesis by (simp add: iter_mixed_file)
qed

section \<open>Properties of the packager\<close>

lemma valid_plain_random: "valid_random plain_random"
  by (simp add: valid_random_def plain_random_def)

lemma shuffle_plain: "shuffle plain_random g xs = xs"
  by (simp add: shuffle_def plain_random_def map_nth)

lemma shuffle_single: "valid_random rnd \<Longrightarrow> shuffle rnd g [x] = [x]"
proof -
  assume "valid_random rnd"
  then have "mset (shuffle_order rnd g 1) = {#0#}"
    by (simp add: valid_random_def)
  then have "shuffle_order rnd g 1 = [0]" by simp
  then show ?thesis by (simp add: shuffle_def)
qed

text \<open>The sealed shards satisfy \<open>sealed_ok\<close> throughout the accumulation loop.\<close>

lemma pack_loop_sealed_ok:
  "pack_loop cps rgs ms texts st = Inr st' \<Longrightarrow>
   shard_chars st = sum_list (map length (shard_docs st)) \<Longrightarrow>
   \<forall>sh \<in> set (written st). sealed_ok cps rgs sh \<Longrightarrow>
   \<forall>sh \<in> set (written st'). sealed_ok cps rgs sh"
proof (induction texts arbitrary: st)
  case Nil
  then show ?case by simp
next
  case (Cons t texts)
  show ?case
  proof (cases "cap_reached ms (shard_index st)")
    case True
    with Cons.prems show ?thesis by simp
  next
    case False
    note nocap = this
    from Cons.prems(1) nocap have rgs: "rgs \<noteq> 0"
      by (auto simp: Let_def split: if_splits)
    let ?st = "add_doc t st"
    have sum: "shard_chars ?st = sum_list (map length (shard_docs ?st))"
      using Cons.prems(2) by (simp add: add_doc_def)
    have wr: "written ?st = written st" by (simp add: add_doc_def)
    show ?thesis
    proof (cases "int (shard_chars ?st) \<ge> cps \<and> int (length (shard_docs ?st)) mod rgs = 0")
      case True
      with Cons.prems(1) nocap rgs
      have run: "pack_loop cps rgs ms texts (seal ?st) = Inr st'"
        by (simp add: Let_def)
      have "sealed_ok cps rgs
              \<lparr>sh_index = shard_index ?st, sh_docs = shard_docs ?st, sh_chars = shard_chars ?st\<rparr>"
        using True sum by (simp add: sealed_ok_def)
      then have "\<forall>sh \<in> set (written (seal ?st)). sealed_ok cps rgs sh"
        using Cons.prems(3) wr by (auto simp: seal_def)
      moreover have "shard_chars (seal ?st) = sum_list (map length (shard_docs (seal ?st)))"
        by (simp add: seal_def)
      ultimately show ?thesis using Cons.IH [OF run] by blast
    next
      case False
      with Cons.prems(1) nocap rgs
      have run: "pack_loop cps rgs ms texts ?st = Inr st'"
        by (auto simp: Let_def)
      from Cons.IH [OF run sum] Cons.prems(3) wr show ?thesis by simp
    qed
  qed
qed

lemma sealed_flush: "sealed (flush ms st) = written st"
  by (simp add: flush_def Let_def)

text \<open>
  Claim C4. In every run that returns, each shard sealed inside the accumulation loop
  has at least \<open>chars_per_shard\<close> characters and a number of documents that is a
  multiple of \<open>row_group_size\<close>; every written shard but the last is such a shard,
  so only the final flushed shard can violate either condition.
\<close>

theorem sealed_shards_full_and_aligned:
  "package_shards rnd g input_files cutoff_year chars_per_shard row_group_size
       shuffle_seed max_shards = Inr r \<Longrightarrow>
   (\<forall>sh \<in> set (sealed r). sealed_ok chars_per_shard row_group_size sh)
   \<and> set (butlast (shards_written r)) \<subseteq> set (sealed r)"
proof -
  assume run: "package_shards rnd g input_files cutoff_year chars_per_shard row_group_size
       shuffle_seed max_shards = Inr r"
  have b: "set (butlast (shards_written r)) \<subseteq> set (sealed r)"
    by (cases "flushed r") (auto simp: shards_written_def dest: in_set_butlastD)
  have "\<forall>sh \<in> set (sealed r). sealed_ok chars_per_shard row_group_size sh"
  proof (cases "iter_jsonl_texts input_files cutoff_year True True = []")
    case True
    with run have "sealed r = []"
      by (auto simp: package_shards_def)
    then show ?thesis by simp
  next
    case False
    with run obtain st where
      loop: "pack_loop chars_per_shard row_group_size max_shards
               (shuffle rnd (seed_state rnd shuffle_seed)
                  (iter_jsonl_texts input_files cutoff_year True True))
               \<lparr>shard_docs = [], shard_chars = 0, shard_index = 0,
                stats = initial_stats, written = []\<rparr> = Inr st"
      and r: "r = flush max_shards st"
      by (auto simp: package_shards_def Let_def split: sum.splits)
    from pack_loop_sealed_ok [OF loop] have "\<forall>sh \<in> set (written st). sealed_ok chars_per_shard row_group_size sh"
      by simp
    with r show ?thesis by (simp add: sealed_flush)
  qed
  with b show ?thesis by simp
qed

lemma iter_three_docs:
  "iter_jsonl_texts three_docs 1913 True True = [doc_king, doc_telegraph, doc_king]"
  by (simp add: iter_jsonl_texts_def outcomes_def file_lines_def three_docs_def
      outcome_king outcome_telegraph)

lemma run_three_docs:
  "package_shards plain_random () three_docs 1913 150 2 42 None =
     Inr \<lparr>returned = \<lparr>total_docs = 3, total_chars = 307, num_shards = 2,
                       rejected_contamination = 0\<rparr>,
          stats_file = Some \<lparr>total_docs = 3, total_chars = 307, num_shards = 2,
                              rejected_contamination = 0\<rparr>,
          sealed = [\<lparr>sh_index = 0, sh_docs = [doc_king, doc_telegraph], sh_chars = 205\<rparr>],
          flushed = Some \<lparr>sh_index = 1, sh_docs = [doc_king], sh_chars = 102\<rparr>\<rparr>"
  by (simp add: package_shards_def iter_three_docs shuffle_plain Let_def add_doc_def seal_def
      cap_reached_def flush_def initial_stats_def doc_lengths)

theorem sealed_shards_full_and_aligned_witness:
  "package_shards plain_random () three_docs 1913 150 2 42 None =
     Inr \<lparr>returned = \<lparr>total_docs = 3, total_chars = 307, num_shards = 2,
                       rejected_contamination = 0\<rparr>,
          stats_file = Some \<lparr>total_docs = 3, total_chars = 307, num_shards = 2,
                              rejected_contamination = 0\<rparr>,
          sealed = [\<lparr>sh_index = 0, sh_docs = [doc_king, doc_telegraph], sh_chars = 205\<rparr>],
          flushed = Some \<lparr>sh_index = 1, sh_docs = [doc_king], sh_chars = 102\<rparr>\<rparr>
   \<and> sealed_ok 150 2 \<lparr>sh_index = 0, sh_docs = [doc_king, doc_telegraph], sh_chars = 205\<rparr>
   \<and> \<not> sealed_ok 150 2 \<lparr>sh_index = 1, sh_docs = [doc_king], sh_chars = 102\<rparr>"
proof -
  from sealed_shards_full_and_aligned [OF run_three_docs]
  have "sealed_ok 150 2 \<lparr>sh_index = 0, sh_docs = [doc_king, doc_telegraph], sh_chars = 205\<rparr>"
    by simp
  moreover have "\<not> sealed_ok 150 2 \<lparr>sh_index = 1, sh_docs = [doc_king], sh_chars = 102\<rparr>"
    by (simp add: sealed_ok_def)
  ultimately show ?thesis using run_three_docs by simp
qed

lemma iter_one_doc: "iter_jsonl_texts one_doc 1913 True True = [doc_king]"
  by (simp add: iter_jsonl_texts_def outcomes_def file_lines_def one_doc_def outcome_king)

lemma iter_clean_and_flagged: "iter_jsonl_texts clean_and_flagged 1913 True True = [doc_king]"
  by (simp add: iter_jsonl_texts_def outcomes_def file_lines_def clean_and_flagged_def
      outcome_king outcome_website)



lemma run_one_doc_cap_zero:
  "valid_random rnd \<Longrightarrow>
   package_shards rnd g one_doc 1913 100 1 42 (Some 0) =
     Inr \<lparr>returned = \<lparr>total_docs = 1, total_chars = 102, num_shards = 1,
                       rejected_contamination = 0\<rparr>,
          stats_file = Some \<lparr>total_docs = 1, total_chars = 102, num_shards = 1,
                              rejected_contamination = 0\<rparr>,
          sealed = [\<lparr>sh_index = 0, sh_docs = [doc_king], sh_chars = 102\<rparr>],
          flushed = None\<rparr>"
  by (simp add: package_shards_def iter_one_doc shuffle_single Let_def add_doc_def seal_def
      cap_reached_def flush_def initial_stats_def doc_lengths)

text \<open>
  Claim C9. With \<open>max_shards = 0\<close> the guard of the loop, \<open>max_shards and \<dots>\<close>, is
  false, so the loop goes on sealing shards: one document, a shard size of 100
  characters and a row group size of 1 give one shard file, although the cap is 0.
  (The guard of the final flush does treat 0 as a cap.)
\<close>

theorem max_shards_zero_writes_a_shard:
  "valid_random rnd \<Longrightarrow>
   (\<exists>r. package_shards rnd g one_doc 1913 100 1 42 (Some 0) = Inr r \<and>
        length (shards_written r) = 1)"
  by (simp add: run_one_doc_cap_zero shards_written_def)

theorem max_shards_zero_writes_a_shard_witness:
  "valid_random plain_random \<and>
   (\<exists>r. package_shards plain_random () one_doc 1913 100 1 42 (Some 0) = Inr r \<and>
        length (shards_written r) = 1)"
  using max_shards_zero_writes_a_shard [OF valid_plain_random, of "()"] valid_plain_random
  by simp

text \<open>For a cap of at least 1 the number of shard files stays within the cap.\<close>

lemma pack_loop_cap:
  "pack_loop cps rgs (Some m) texts st = Inr st' \<Longrightarrow> 1 \<le> m \<Longrightarrow>
   shard_index st = length (written st) \<Longrightarrow> int (shard_index st) \<le> m \<Longrightarrow>
   shard_index st' = length (written st') \<and> int (shard_index st') \<le> m"
proof (induction texts arbitrary: st)
  case Nil
  then show ?case by simp
next
  case (Cons t texts)
  show ?case
  proof (cases "cap_reached (Some m) (shard_index st)")
    case True
    with Cons.prems show ?thesis by simp
  next
    case False
    note nocap = this
    with Cons.prems(2) have lt: "int (shard_index st) < m"
      by (simp add: cap_reached_def)
    from Cons.prems(1) nocap have rgs: "rgs \<noteq> 0"
      by (auto simp: Let_def split: if_splits)
    let ?st = "add_doc t st"
    have idx: "shard_index ?st = shard_index st" "written ?st = written st"
      by (simp_all add: add_doc_def)
    show ?thesis
    proof (cases "int (shard_chars ?st) \<ge> cps \<and> int (length (shard_docs ?st)) mod rgs = 0")
      case True
      with Cons.prems(1) nocap rgs
      have run: "pack_loop cps rgs (Some m) texts (seal ?st) = Inr st'"
        by (simp add: Let_def)
      have "shard_index (seal ?st) = length (written (seal ?st))"
        using Cons.prems(3) idx by (simp add: seal_def)
      moreover have "int (shard_index (seal ?st)) \<le> m"
        using lt idx by (simp add: seal_def)
      ultimately show ?thesis using Cons.IH [OF run Cons.prems(2)] by blast
    next
      case False
      with Cons.prems(1) nocap rgs
      have run: "pack_loop cps rgs (Some m) texts ?st = Inr st'"
        by (auto simp: Let_def)
      from Cons.IH [OF run Cons.prems(2)] Cons.prems(3,4) idx show ?thesis by simp
    qed
  qed
qed

lemma positive_max_shards_caps_output:
  "package_shards rnd g input_files cutoff_year cps rgs seed (Some m) = Inr r \<Longrightarrow> 1 \<le> m \<Longrightarrow>
   int (length (shards_written r)) \<le> m"
proof -
  assume run: "package_shards rnd g input_files cutoff_year cps rgs seed (Some m) = Inr r"
    and m: "1 \<le> m"
  show ?thesis
  proof (cases "iter_jsonl_texts input_files cutoff_year True True = []")
    case True
    with run m show ?thesis by (auto simp: package_shards_def shards_written_def)
  next
    case False
    with run obtain st where
      loop: "pack_loop cps rgs (Some m)
               (shuffle rnd (seed_state rnd seed)
                  (iter_jsonl_texts input_files cutoff_year True True))
               \<lparr>shard_docs = [], shard_chars = 0, shard_index = 0,
                stats = initial_stats, written = []\<rparr> = Inr st"
      and r: "r = flush (Some m) st"
      by (auto simp: package_shards_def Let_def split: sum.splits)
    from pack_loop_cap [OF loop m] m
    have "shard_index st = length (written st)" "int (shard_index st) \<le> m"
      by simp_all
    with r show ?thesis
      by (auto simp: flush_def shards_written_def Let_def)
  qed
qed

text \<open>No step of the packager changes the counter \<open>rejected_contamination\<close>.\<close>

lemma pack_loop_rejected:
  "pack_loop cps rgs ms texts st = Inr st' \<Longrightarrow>
   rejected_contamination (stats st') = rejected_contamination (stats st)"
proof (induction texts arbitrary: st)
  case Nil
  then show ?case by simp
next
  case (Cons t texts)
  show ?case
  proof (cases "cap_reached ms (shard_index st)")
    case True
    with Cons.prems show ?thesis by simp
  next
    case False
    note nocap = this
    from Cons.prems(1) nocap have rgs: "rgs \<noteq> 0"
      by (auto simp: Let_def split: if_splits)
    let ?st = "add_doc t st"
    have a: "rejected_contamination (stats ?st) = rejected_contamination (stats st)"
      "rejected_contamination (stats (seal ?st)) = rejected_contamination (stats st)"
      by (simp_all add: add_doc_def seal_def)
    show ?thesis
    proof (cases "int (shard_chars ?st) \<ge> cps \<and> int (length (shard_docs ?st)) mod rgs = 0")
      case True
      with Cons.prems(1) nocap rgs
      have "pack_loop cps rgs ms texts (seal ?st) = Inr st'"
        by (simp add: Let_def)
      from Cons.IH [OF this] a show ?thesis by simp
    next
      case False
      with Cons.prems(1) nocap rgs
      have "pack_loop cps rgs ms texts ?st = Inr st'"
        by (auto simp: Let_def)
      from Cons.IH [OF this] a show ?thesis by simp
    qed
  qed
qed

lemma pack_loop_returns: "rgs \<noteq> 0 \<Longrightarrow> \<exists>st'. pack_loop cps rgs ms texts st = Inr st'"
  by (induction texts arbitrary: st) (auto simp: Let_def)

lemma rejected_contamination_stays_zero:
  "package_shards rnd g input_files cutoff_year cps rgs seed ms = Inr r \<Longrightarrow>
   rejected_contamination (returned r) = 0 \<and>
   (stats_file r = None \<or> stats_file r = Some (returned r))"
proof -
  assume run: "package_shards rnd g input_files cutoff_year cps rgs seed ms = Inr r"
  show ?thesis
  proof (cases "iter_jsonl_texts input_files cutoff_year True True = []")
    case True
    with run show ?thesis by (auto simp: package_shards_def initial_stats_def)
  next
    case False
    with run obtain st where
      loop: "pack_loop cps rgs ms
               (shuffle rnd (seed_state rnd seed)
                  (iter_jsonl_texts input_files cutoff_year True True))
               \<lparr>shard_docs = [], shard_chars = 0, shard_index = 0,
                stats = initial_stats, written = []\<rparr> = Inr st"
      and r: "r = flush ms st"
      by (auto simp: package_shards_def Let_def split: sum.splits)
    from pack_loop_rejected [OF loop] have "rejected_contamination (stats st) = 0"
      by (simp add: initial_stats_def)
    with r show ?thesis by (auto simp: flush_def Let_def)
  qed
qed

lemma rejected_clean_and_flagged: "rejected_documents clean_and_flagged 1913 = 1"
  by (simp add: rejected_documents_def outcomes_def file_lines_def clean_and_flagged_def
      outcome_king outcome_website)

text \<open>
  Claim C2. Of the two documents of \<open>clean_and_flagged\<close> the reader drops one because
  the detector flags it, and the run returns and writes statistics whose
  \<open>rejected_contamination\<close> is 0.
\<close>

theorem rejected_contamination_not_counted:
  "rejected_documents clean_and_flagged 1913 = 1 \<and>
   (\<exists>r. package_shards rnd g clean_and_flagged 1913 250000000 1024 42 None = Inr r \<and>
        rejected_contamination (returned r) = 0 \<and>
        stats_file r = Some (returned r))"
proof -
  obtain st where loop: "pack_loop 250000000 1024 None
               (shuffle rnd (seed_state rnd 42) [doc_king])
               \<lparr>shard_docs = [], shard_chars = 0, shard_index = 0,
                stats = initial_stats, written = []\<rparr> = Inr st"
    using pack_loop_returns [of 1024] by fastforce
  then have run: "package_shards rnd g clean_and_flagged 1913 250000000 1024 42 None =
      Inr (flush None st)"
    by (simp add: package_shards_def iter_clean_and_flagged Let_def)
  from rejected_contamination_stays_zero [OF run]
  have "rejected_contamination (returned (flush None st)) = 0" by simp
  moreover have "stats_file (flush None st) = Some (returned (flush None st))"
    by (simp add: flush_def Let_def)
  ultimately show ?thesis using run rejected_clean_and_flagged by simp
qed





end
